theory Spec2Isabelle
  imports Complex_Main
begin

section \<open>Decoded JSON values and the JavaScript operators the library applies to them\<close>

text \<open>
  A response body as the HTTP client hands it over: a decoded JSON value. An object is the
  list of its own properties (key and value, in the order of the document; a decoded object
  has each key once). Numbers are only ever type-tested and passed on, never computed with.
\<close>

datatype json =
    JNull
  | JBool bool
  | JNum rat
  | JStr string
  | JArr "json list"
  | JObj "(string \<times> json) list"

text \<open>
  \<open>typeof v\<close>, where \<open>None\<close> stands for \<open>undefined\<close> (the value of a property
  that is not there).
\<close>

fun typeof :: "json option \<Rightarrow> string" where
  "typeof None = ''undefined''"
| "typeof (Some JNull) = ''object''"
| "typeof (Some (JBool b)) = ''boolean''"
| "typeof (Some (JNum n)) = ''number''"
| "typeof (Some (JStr s)) = ''string''"
| "typeof (Some (JArr xs)) = ''object''"
| "typeof (Some (JObj kv)) = ''object''"

text \<open>
  The right operand of \<open>in\<close> must be an object (arrays are objects); on \<open>null\<close>, a
  boolean, a number or a string the operator throws a TypeError of the engine.
\<close>

fun is_object :: "json \<Rightarrow> bool" where
  "is_object (JObj kv) = True"
| "is_object (JArr xs) = True"
| "is_object v = False"

text \<open>
  \<open>jsonObject.key\<close> and \<open>"key" in jsonObject\<close> for the property names this library
  reads (uuid, status, images, errorDescription, censored, generationTime, id, name,
  version, number, type, title, titleEn, image, model_status): none of them is an index,
  \<open>length\<close> or a member of the built-in prototypes, so an array has none of them and
  an object has exactly its own ones.
\<close>

fun get_prop :: "json \<Rightarrow> string \<Rightarrow> json option" where
  "get_prop (JObj kv) key = map_of kv key"
| "get_prop v key = None"

fun js_in :: "string \<Rightarrow> json \<Rightarrow> bool" where
  "js_in key (JObj kv) = (map_of kv key \<noteq> None)"
| "js_in key v = False"

text \<open>A template literal prints \<open>undefined\<close> for an undefined value.\<close>

fun template_of :: "string option \<Rightarrow> string" where
  "template_of None = ''undefined''"
| "template_of (Some s) = s"

definition found_or_missing :: "bool \<Rightarrow> string" where
  "found_or_missing ok = (if ok then ''found'' else ''missing'')"

section \<open>Error values\<close>

datatype FusionBrainErrorCode =
    EXPIRED
  | UNAUTHORIZED
  | LONG_PROMPT_OR_BAD_REQUEST
  | MODEL_NOT_READY
  | UNSUPPORTED_MEDIA
  | UNEXPECTED

record AxiosResponse =
  status :: nat
  data :: json

record AxiosError =
  message :: string
  response :: "AxiosResponse option"
  stack :: "string option"

text \<open>\<open>err.response?.status\<close>: undefined when the failure came without a response.\<close>

definition response_status :: "AxiosError \<Rightarrow> nat option" where
  "response_status err = map_option AxiosResponse.status (response err)"

text \<open>
  \<open>stack\<close> holds what the library appends to the trace that the engine writes when the
  error is constructed; that engine trace itself is left out of the model.
\<close>

record FusionBrainError =
  message :: string
  code :: FusionBrainErrorCode
  body :: "string option"
  stack :: string

text \<open>
  What a \<open>throw\<close> can carry in this program: an error of the HTTP client, a TypeError
  built by the library with its message, the TypeError of the engine for \<open>key in v\<close>
  on a primitive \<open>v\<close>, a classified error, or anything else the transport throws.
\<close>

datatype thrown =
    AxiosErr AxiosError
  | TypeError string
  | EngineTypeError string json
  | FBErr FusionBrainError
  | OtherErr string

definition new_FusionBrainError ::
  "string \<Rightarrow> FusionBrainErrorCode \<Rightarrow> string option \<Rightarrow> FusionBrainError" where
  "new_FusionBrainError msg c b =
     \<lparr>FusionBrainError.message = msg, code = c, body = b, stack = ''''\<rparr>"

text \<open>
  \<open>stringify\<close> is the engine's \<open>JSON.stringify\<close> on decoded JSON values; on
  \<open>undefined\<close> (no response at all) it yields \<open>undefined\<close>.
\<close>

definition unexpected :: "(json \<Rightarrow> string) \<Rightarrow> string \<Rightarrow> AxiosError \<Rightarrow> FusionBrainError" where
  "unexpected stringify methodName err =
     (let serialized = map_option (\<lambda>r. stringify (data r)) (response err);
          detailed = new_FusionBrainError
            (methodName @ '': '' @ AxiosError.message err @ '':'' @ [CHR 0x0A]
               @ template_of serialized)
            UNEXPECTED serialized
      in detailed\<lparr>FusionBrainError.stack := FusionBrainError.stack detailed
              @ ''Caused by: '' @ template_of (AxiosError.stack err)\<rparr>)"

definition unauthorized :: "string \<Rightarrow> FusionBrainError" where
  "unauthorized methodName =
     new_FusionBrainError
       (methodName @ '': Request failed with Unauthorized error. Ensure you've provided correct api and secret keys.'')
       UNAUTHORIZED None"

definition taskExpired :: "string \<Rightarrow> FusionBrainError" where
  "taskExpired methodName =
     new_FusionBrainError (methodName @ '': task is expired and removed already'') EXPIRED None"

definition tooLongPromptsOrBadRequest :: "string \<Rightarrow> FusionBrainError" where
  "tooLongPromptsOrBadRequest methodName =
     new_FusionBrainError
       (methodName @ '': most likely prompt (+ negative prompt) are too long. If they're short, then this error may mean that API changed and library needs for update'')
       LONG_PROMPT_OR_BAD_REQUEST None"

definition unsupportedMedia :: "string \<Rightarrow> FusionBrainError" where
  "unsupportedMedia methodName =
     new_FusionBrainError
       (methodName @ '': Seems like API changed and library needs for update'')
       UNSUPPORTED_MEDIA None"

definition modelNotReady :: "string \<Rightarrow> string \<Rightarrow> FusionBrainError" where
  "modelNotReady methodName b =
     new_FusionBrainError
       (methodName @ '': requested model is not ready for usage now. See `body` field for details'')
       MODEL_NOT_READY (Some b)"

section \<open>Task\<close>

text \<open>
  \<open>images\<close> is declared \<open>string[]\<close>, but \<open>create\<close> stores the input's array as it
  is after looking at its first element only, so the field holds JSON values.
\<close>

record Task =
  uuid :: string
  status :: string
  images :: "json list option"
  errorDescription :: "string option"
  censored :: "bool option"
  generationTime :: "rat option"

definition INITIAL :: string where "INITIAL = ''INITIAL''"
definition PROCESSING :: string where "PROCESSING = ''PROCESSING''"
definition DONE :: string where "DONE = ''DONE''"
definition FAIL :: string where "FAIL = ''FAIL''"

text \<open>The message of the TypeError of \<open>Task.create\<close>, after \<open>trim()\<close>.\<close>

definition Task_create_message :: "bool \<Rightarrow> bool \<Rightarrow> string" where
  "Task_create_message uuidOk statusOk =
     ''Task.create: passed object doesn't match required structure:'' @ [CHR 0x0A]
     @ ''uuid (string) - '' @ found_or_missing uuidOk @ [CHR 0x0A]
     @ ''status (string) - '' @ found_or_missing statusOk"

definition Task_images :: "json \<Rightarrow> json list option" where
  "Task_images jsonObject =
     (if js_in ''images'' jsonObject then
        (case get_prop jsonObject ''images'' of
           Some (JArr xs) \<Rightarrow>
             (case xs of
                [] \<Rightarrow> None
              | x # rest \<Rightarrow> if typeof (Some x) = ''string'' then Some xs else None)
         | _ \<Rightarrow> None)
      else None)"

definition Task_errorDescription :: "json \<Rightarrow> string option" where
  "Task_errorDescription jsonObject =
     (if js_in ''errorDescription'' jsonObject then
        (case get_prop jsonObject ''errorDescription'' of Some (JStr s) \<Rightarrow> Some s | _ \<Rightarrow> None)
      else None)"

definition Task_censored :: "json \<Rightarrow> bool option" where
  "Task_censored jsonObject =
     (if js_in ''censored'' jsonObject then
        (case get_prop jsonObject ''censored'' of Some (JBool b) \<Rightarrow> Some b | _ \<Rightarrow> None)
      else None)"

definition Task_generationTime :: "json \<Rightarrow> rat option" where
  "Task_generationTime jsonObject =
     (if js_in ''generationTime'' jsonObject then
        (case get_prop jsonObject ''generationTime'' of Some (JNum n) \<Rightarrow> Some n | _ \<Rightarrow> None)
      else None)"

text \<open>
  \<open>Task.create\<close>. Its first expression is \<open>"uuid" in jsonObject\<close>, which throws on a
  primitive before anything else happens. When both tests pass, the two properties are
  strings, which is the only case of the inner \<open>case\<close> that builds a Task.
\<close>

definition Task_create :: "json \<Rightarrow> thrown + Task" where
  "Task_create jsonObject =
     (if \<not> is_object jsonObject then Inl (EngineTypeError ''uuid'' jsonObject)
      else
        let uuidOk = (js_in ''uuid'' jsonObject
                        \<and> typeof (get_prop jsonObject ''uuid'') = ''string'');
            statusOk = (js_in ''status'' jsonObject
                        \<and> typeof (get_prop jsonObject ''status'') = ''string'')
        in if \<not> (uuidOk \<and> statusOk) then Inl (TypeError (Task_create_message uuidOk statusOk))
           else
             (case (get_prop jsonObject ''uuid'', get_prop jsonObject ''status'') of
                (Some (JStr u), Some (JStr s)) \<Rightarrow>
                  Inr \<lparr>uuid = u, status = s,
                       images = Task_images jsonObject,
                       errorDescription = Task_errorDescription jsonObject,
                       censored = Task_censored jsonObject,
                       generationTime = Task_generationTime jsonObject\<rparr>
              | _ \<Rightarrow> Inl (TypeError (Task_create_message uuidOk statusOk))))"

definition isFinished :: "Task \<Rightarrow> bool" where
  "isFinished t = (Task.status t = DONE \<or> Task.status t = FAIL)"

definition isCensored :: "Task \<Rightarrow> bool" where
  "isCensored t = (isFinished t \<and> censored t = Some True)"

definition isSuccess :: "Task \<Rightarrow> bool" where
  "isSuccess t =
     (let done = (Task.status t = DONE);
          notCensored = (\<not> isCensored t);
          gotImages = (images t \<noteq> None)
      in if done \<and> notCensored \<and> gotImages
         then (case images t of Some imgs \<Rightarrow> length imgs > 0 | None \<Rightarrow> False)
         else False)"

section \<open>ModelInfo and StyleInfo\<close>

text \<open>
  \<open>version\<close> is declared a number; the factory passes \<open>jsonObject.number\<close> to the
  constructor, so the field holds whatever that property is, \<open>undefined\<close> included.
\<close>

record ModelInfo =
  id_m :: rat
  name :: string
  version :: "json option"
  type_m :: string

definition ModelInfo_create_message :: "bool \<Rightarrow> bool \<Rightarrow> bool \<Rightarrow> bool \<Rightarrow> string" where
  "ModelInfo_create_message idOk nameOk versionOk typeOk =
     ''ModelInfo.create: passed object doesn't match required structure:'' @ [CHR 0x0A]
     @ ''id (number) - '' @ found_or_missing idOk @ [CHR 0x0A]
     @ ''name (string) - '' @ found_or_missing nameOk @ [CHR 0x0A]
     @ ''version (number) - '' @ found_or_missing versionOk @ [CHR 0x0A]
     @ ''type (string) - '' @ found_or_missing typeOk"

definition ModelInfo_create :: "json \<Rightarrow> thrown + ModelInfo" where
  "ModelInfo_create jsonObject =
     (if \<not> is_object jsonObject then Inl (EngineTypeError ''id'' jsonObject)
      else
        let idOk = (js_in ''id'' jsonObject \<and> typeof (get_prop jsonObject ''id'') = ''number'');
            nameOk = (js_in ''name'' jsonObject
                        \<and> typeof (get_prop jsonObject ''name'') = ''string'');
            versionOk = (js_in ''version'' jsonObject
                        \<and> typeof (get_prop jsonObject ''version'') = ''number'');
            typeOk = (js_in ''type'' jsonObject
                        \<and> typeof (get_prop jsonObject ''type'') = ''string'')
        in if idOk \<and> nameOk \<and> versionOk \<and> typeOk then
             (case (get_prop jsonObject ''id'', get_prop jsonObject ''name'',
                    get_prop jsonObject ''type'') of
                (Some (JNum i), Some (JStr n), Some (JStr t)) \<Rightarrow>
                  Inr \<lparr>id_m = i, name = n,
                       version = get_prop jsonObject ''number'',
                       type_m = t\<rparr>
              | _ \<Rightarrow> Inl (TypeError (ModelInfo_create_message idOk nameOk versionOk typeOk)))
           else Inl (TypeError (ModelInfo_create_message idOk nameOk versionOk typeOk)))"

record StyleInfo =
  name :: string
  title :: string
  titleEn :: string
  image :: string

definition StyleInfo_create_message :: "bool \<Rightarrow> bool \<Rightarrow> bool \<Rightarrow> bool \<Rightarrow> string" where
  "StyleInfo_create_message nameOk titleOk titleEnOk imageOk =
     ''StyleInfo.create: passed object doesn't match required structure:'' @ [CHR 0x0A]
     @ ''name (string) - '' @ found_or_missing nameOk @ [CHR 0x0A]
     @ ''title (string) - '' @ found_or_missing titleOk @ [CHR 0x0A]
     @ ''titleEn (string) - '' @ found_or_missing titleEnOk @ [CHR 0x0A]
     @ ''image (string) - '' @ found_or_missing imageOk"

definition StyleInfo_create :: "json \<Rightarrow> thrown + StyleInfo" where
  "StyleInfo_create jsonObject =
     (if \<not> is_object jsonObject then Inl (EngineTypeError ''name'' jsonObject)
      else
        let nameOk = (js_in ''name'' jsonObject
                        \<and> typeof (get_prop jsonObject ''name'') = ''string'');
            titleOk = (js_in ''title'' jsonObject
                        \<and> typeof (get_prop jsonObject ''title'') = ''string'');
            titleEnOk = (js_in ''titleEn'' jsonObject
                        \<and> typeof (get_prop jsonObject ''titleEn'') = ''string'');
            imageOk = (js_in ''image'' jsonObject
                        \<and> typeof (get_prop jsonObject ''image'') = ''string'')
        in if nameOk \<and> titleOk \<and> titleEnOk \<and> imageOk then
             (case (get_prop jsonObject ''name'', get_prop jsonObject ''title'',
                    get_prop jsonObject ''titleEn'', get_prop jsonObject ''image'') of
                (Some (JStr n), Some (JStr t), Some (JStr te), Some (JStr i)) \<Rightarrow>
                  Inr \<lparr>StyleInfo.name = n, title = t, titleEn = te, image = i\<rparr>
              | _ \<Rightarrow> Inl (TypeError (StyleInfo_create_message nameOk titleOk titleEnOk imageOk)))
           else Inl (TypeError (StyleInfo_create_message nameOk titleOk titleEnOk imageOk)))"

text \<open>\<open>array.map(create)\<close>: the first element that throws ends the whole call.\<close>

fun map_create :: "(json \<Rightarrow> thrown + 'a) \<Rightarrow> json list \<Rightarrow> thrown + 'a list" where
  "map_create create [] = Inr []"
| "map_create create (x # xs) =
     (case create x of
        Inl err \<Rightarrow> Inl err
      | Inr v \<Rightarrow> (case map_create create xs of Inl err \<Rightarrow> Inl err | Inr vs \<Rightarrow> Inr (v # vs)))"

section \<open>The client\<close>

text \<open>
  Every public operation awaits one HTTP exchange and then routes its outcome. The
  outcome is an argument of the model: \<open>Inr d\<close> when the request resolves with response
  body \<open>d\<close>, \<open>Inl e\<close> when the awaited call throws \<open>e\<close>. The request itself (URL,
  headers, form data) is built from the configuration and the arguments and has no part in
  the routing. Each operation is its \<open>try\<close> block followed by its \<open>catch\<close> block,
  through which everything thrown inside the \<open>try\<close> passes.
\<close>

datatype Generation =
    Accepted Task
  | NotAccepted string

fun accepted :: "Generation \<Rightarrow> bool" where
  "accepted (Accepted t) = True"
| "accepted (NotAccepted r) = False"

definition isReady_try :: "(json \<Rightarrow> string) \<Rightarrow> thrown + json \<Rightarrow> bool option \<Rightarrow> thrown + bool" where
  "isReady_try stringify exchange verbose_false =
     (case exchange of
        Inl err \<Rightarrow> Inl err
      | Inr d \<Rightarrow>
          if \<not> is_object d then Inl (EngineTypeError ''status'' d)
          else
            let statusOk = (js_in ''status'' d \<and> get_prop d ''status'' = Some (JStr ''ACTIVE''));
                modelStatusOk = (js_in ''model_status'' d
                                   \<and> get_prop d ''model_status'' = Some (JStr ''ACTIVE''))
            in if statusOk \<or> modelStatusOk then Inr True
               else if verbose_false = Some True
                 then Inl (FBErr (modelNotReady ''FusionBrain.checkModel'' (stringify d)))
                 else Inr False)"

definition isReady_catch :: "(json \<Rightarrow> string) \<Rightarrow> thrown \<Rightarrow> thrown" where
  "isReady_catch stringify err =
     (case err of
        AxiosErr e \<Rightarrow>
          if response_status e = Some 401
          then FBErr (unauthorized ''FusionBrain.checkModel'')
          else FBErr (unexpected stringify ''FusionBrain.checkModel'' e)
      | _ \<Rightarrow> err)"

definition isReady :: "(json \<Rightarrow> string) \<Rightarrow> thrown + json \<Rightarrow> bool option \<Rightarrow> thrown + bool" where
  "isReady stringify exchange verbose_false =
     (case isReady_try stringify exchange verbose_false of
        Inl err \<Rightarrow> Inl (isReady_catch stringify err)
      | Inr r \<Rightarrow> Inr r)"

definition generate_try :: "(json \<Rightarrow> string) \<Rightarrow> thrown + json \<Rightarrow> thrown + Generation" where
  "generate_try stringify exchange =
     (case exchange of
        Inl err \<Rightarrow> Inl err
      | Inr d \<Rightarrow>
          (case Task_create d of
             Inr t \<Rightarrow> Inr (Accepted t)
           | Inl notTask \<Rightarrow> Inr (NotAccepted (stringify d))))"

definition generate_catch :: "(json \<Rightarrow> string) \<Rightarrow> thrown \<Rightarrow> thrown" where
  "generate_catch stringify err =
     (case err of
        AxiosErr e \<Rightarrow>
          (let st = response_status e
           in if st = Some 400 then FBErr (tooLongPromptsOrBadRequest ''FusionBrain.generate'')
              else if st = Some 401 then FBErr (unauthorized ''FusionBrain.generate'')
              else if st = Some 415 then FBErr (unsupportedMedia ''FusionBrain.generate'')
              else FBErr (unexpected stringify ''FusionBrain.generate'' e))
      | _ \<Rightarrow> err)"

definition generate :: "(json \<Rightarrow> string) \<Rightarrow> thrown + json \<Rightarrow> thrown + Generation" where
  "generate stringify exchange =
     (case generate_try stringify exchange of
        Inl err \<Rightarrow> Inl (generate_catch stringify err)
      | Inr r \<Rightarrow> Inr r)"

definition checkTask_try :: "thrown + json \<Rightarrow> thrown + Task" where
  "checkTask_try exchange =
     (case exchange of
        Inl err \<Rightarrow> Inl err
      | Inr d \<Rightarrow> Task_create d)"

definition checkTask_catch :: "(json \<Rightarrow> string) \<Rightarrow> thrown \<Rightarrow> thrown" where
  "checkTask_catch stringify err =
     (case err of
        AxiosErr e \<Rightarrow>
          (let st = response_status e
           in if st = Some 401 then FBErr (unauthorized ''FusionBrain.checkTask'')
              else if st = Some 404 then FBErr (taskExpired ''FusionBrain.checkTask'')
              else FBErr (unexpected stringify ''FusionBrain.checkTask'' e))
      | _ \<Rightarrow> err)"

definition checkTask :: "(json \<Rightarrow> string) \<Rightarrow> thrown + json \<Rightarrow> thrown + Task" where
  "checkTask stringify exchange =
     (case checkTask_try exchange of
        Inl err \<Rightarrow> Inl (checkTask_catch stringify err)
      | Inr r \<Rightarrow> Inr r)"

definition getStyles_try :: "(json \<Rightarrow> string) \<Rightarrow> thrown + json \<Rightarrow> thrown + StyleInfo list" where
  "getStyles_try stringify exchange =
     (case exchange of
        Inl err \<Rightarrow> Inl err
      | Inr d \<Rightarrow>
          (case d of
             JArr objs \<Rightarrow> map_create StyleInfo_create objs
           | _ \<Rightarrow> Inl (TypeError
                 (''FusionBrain.getStyles: Response expected to be array of objects, but non-array object received:''
                    @ [CHR 0x0A] @ stringify d))))"

definition getStyles_catch :: "(json \<Rightarrow> string) \<Rightarrow> thrown \<Rightarrow> thrown" where
  "getStyles_catch stringify err =
     (case err of
        AxiosErr e \<Rightarrow> FBErr (unexpected stringify ''FusionBrain.checkModel'' e)
      | _ \<Rightarrow> err)"

definition getStyles :: "(json \<Rightarrow> string) \<Rightarrow> thrown + json \<Rightarrow> thrown + StyleInfo list" where
  "getStyles stringify exchange =
     (case getStyles_try stringify exchange of
        Inl err \<Rightarrow> Inl (getStyles_catch stringify err)
      | Inr r \<Rightarrow> Inr r)"

definition getModels_try :: "(json \<Rightarrow> string) \<Rightarrow> thrown + json \<Rightarrow> thrown + ModelInfo list" where
  "getModels_try stringify exchange =
     (case exchange of
        Inl err \<Rightarrow> Inl err
      | Inr d \<Rightarrow>
          (case d of
             JArr objs \<Rightarrow> map_create ModelInfo_create objs
           | _ \<Rightarrow> Inl (TypeError
                 (''FusinBrain.getModels: Response expected to be array of objects, but non-array object received:''
                    @ [CHR 0x0A] @ stringify d))))"

definition getModels_catch :: "(json \<Rightarrow> string) \<Rightarrow> thrown \<Rightarrow> thrown" where
  "getModels_catch stringify err =
     (case err of
        AxiosErr e \<Rightarrow>
          if response_status e = Some 401
          then FBErr (unauthorized ''FusionBrain.checkModel'')
          else FBErr (unexpected stringify ''FusionBrain.checkModel'' e)
      | _ \<Rightarrow> err)"

definition getModels :: "(json \<Rightarrow> string) \<Rightarrow> thrown + json \<Rightarrow> thrown + ModelInfo list" where
  "getModels stringify exchange =
     (case getModels_try stringify exchange of
        Inl err \<Rightarrow> Inl (getModels_catch stringify err)
      | Inr r \<Rightarrow> Inr r)"

text \<open>The kind of the classified error an operation ends with, if it ends with one.\<close>

fun error_kind :: "thrown + 'a \<Rightarrow> FusionBrainErrorCode option" where
  "error_kind (Inl (FBErr e)) = Some (code e)"
| "error_kind r = None"

section \<open>Example values\<close>

text \<open>
  Concrete snapshots, response bodies and failures on which the theorems below are run.
  \<open>fixed_text\<close> stands for the serializer at the one body the examples serialize.
\<close>

definition example_task :: Task where
  "example_task = \<lparr>uuid = ''7a1c'', status = ''DONE'', images = Some [JStr ''aGVsbG8=''],
     errorDescription = None, censored = Some False, generationTime = Some 12\<rparr>"

definition accepted_body :: json where
  "accepted_body = JObj [(''uuid'', JStr ''7a1c''), (''status'', JStr ''INITIAL'')]"

definition rejected_body :: json where
  "rejected_body = JObj [(''model_status'', JStr ''DISABLED_BY_QUEUE'')]"

definition fixed_text :: "json \<Rightarrow> string" where
  "fixed_text d = ''{\"model_status\":\"DISABLED_BY_QUEUE\"}''"

definition expired_failure :: AxiosError where
  "expired_failure = \<lparr>AxiosError.message = ''Request failed with status code 404'',
     response = Some \<lparr>AxiosResponse.status = 404, data = JStr ''''\<rparr>,
     stack = Some ''AxiosError: Request failed with status code 404''\<rparr>"

definition unauthorized_failure :: AxiosError where
  "unauthorized_failure = \<lparr>AxiosError.message = ''Request failed with status code 401'',
     response = Some \<lparr>AxiosResponse.status = 401, data = JStr ''''\<rparr>,
     stack = None\<rparr>"

definition network_failure :: AxiosError where
  "network_failure = \<lparr>AxiosError.message = ''Network Error'', response = None, stack = None\<rparr>"

definition model_entry :: json where
  "model_entry = JObj [(''id'', JNum 4), (''name'', JStr ''Kandinsky''),
     (''version'', JNum 3.1), (''type'', JStr ''TEXT2IMAGE'')]"

definition status_only_body :: json where
  "status_only_body = JObj [(''status'', JStr ''INITIAL'')]"

definition empty_strings_body :: json where
  "empty_strings_body = JObj [(''uuid'', JStr ''''), (''status'', JStr '''')]"

definition mixed_images_body :: json where
  "mixed_images_body = JObj [(''uuid'', JStr ''7a1c''), (''status'', JStr ''DONE''),
     (''images'', JArr [JStr ''aGVsbG8='', JNum 5, JNull])]"

definition bad_images_body :: json where
  "bad_images_body = JObj [(''uuid'', JStr ''7a1c''), (''status'', JStr ''DONE''),
     (''images'', JArr [JNum 5, JStr ''aGVsbG8=''])]"

section \<open>Facts about the JavaScript operators and the factories\<close>

lemma typeof_string_iff: "typeof v = ''string'' \<longleftrightarrow> (\<exists>s. v = Some (JStr s))"
  by (cases v rule: typeof.cases) auto

lemma typeof_number_iff: "typeof v = ''number'' \<longleftrightarrow> (\<exists>n. v = Some (JNum n))"
  by (cases v rule: typeof.cases) auto

lemma js_in_get_prop: "js_in key j \<longleftrightarrow> get_prop j key \<noteq> None"
  by (cases j) auto

lemma in_and_string [simp]:
  "(js_in key j \<and> typeof (get_prop j key) = ''string'') \<longleftrightarrow> typeof (get_prop j key) = ''string''"
  by (cases "get_prop j key") (auto simp: js_in_get_prop)

lemma in_and_number [simp]:
  "(js_in key j \<and> typeof (get_prop j key) = ''number'') \<longleftrightarrow> typeof (get_prop j key) = ''number''"
  by (cases "get_prop j key") (auto simp: js_in_get_prop)

lemma get_prop_is_object: "get_prop j key = Some v \<Longrightarrow> is_object j"
  by (cases j) auto

lemma Task_create_primitive:
  "\<not> is_object j \<Longrightarrow> Task_create j = Inl (EngineTypeError ''uuid'' j)"
  by (simp add: Task_create_def)

lemma Task_create_fails:
  assumes "is_object j"
    and "typeof (get_prop j ''uuid'') \<noteq> ''string'' \<or> typeof (get_prop j ''status'') \<noteq> ''string''"
  shows "Task_create j = Inl (TypeError (Task_create_message
           (typeof (get_prop j ''uuid'') = ''string'') (typeof (get_prop j ''status'') = ''string'')))"
  using assms by (auto simp: Task_create_def Let_def)

lemma Task_create_succeeds:
  assumes "get_prop j ''uuid'' = Some (JStr u)" and "get_prop j ''status'' = Some (JStr s)"
  shows "Task_create j = Inr \<lparr>uuid = u, status = s, images = Task_images j,
           errorDescription = Task_errorDescription j, censored = Task_censored j,
           generationTime = Task_generationTime j\<rparr>"
  using assms get_prop_is_object[OF assms(1)]
  by (simp add: Task_create_def Let_def js_in_get_prop)

lemma Task_create_Inr_fields:
  assumes "Task_create j = Inr t"
  shows "get_prop j ''uuid'' = Some (JStr (uuid t)) \<and> get_prop j ''status'' = Some (JStr (Task.status t))
         \<and> images t = Task_images j"
  using assms
  by (auto simp: Task_create_def Let_def typeof_string_iff split: if_splits)

lemma Task_images_Some:
  "Task_images j = Some xs \<longleftrightarrow> (\<exists>x rest. xs = JStr x # rest \<and> get_prop j ''images'' = Some (JArr xs))"
  by (auto simp: Task_images_def js_in_get_prop typeof_string_iff split: option.splits json.splits list.splits)

lemma ModelInfo_create_Inr:
  assumes "ModelInfo_create j = Inr m"
  shows "get_prop j ''id'' = Some (JNum (id_m m)) \<and> get_prop j ''name'' = Some (JStr (ModelInfo.name m))
     \<and> get_prop j ''type'' = Some (JStr (type_m m)) \<and> version m = get_prop j ''number''
     \<and> typeof (get_prop j ''version'') = ''number''"
  using assms
  by (auto simp: ModelInfo_create_def Let_def typeof_string_iff typeof_number_iff split: if_splits)

lemma code_simps [simp]:
  "code (unexpected S m e) = UNEXPECTED"
  "code (unauthorized m) = UNAUTHORIZED"
  "code (taskExpired m) = EXPIRED"
  "code (tooLongPromptsOrBadRequest m) = LONG_PROMPT_OR_BAD_REQUEST"
  "code (unsupportedMedia m) = UNSUPPORTED_MEDIA"
  "code (modelNotReady m b) = MODEL_NOT_READY"
  by (simp_all add: unexpected_def unauthorized_def taskExpired_def tooLongPromptsOrBadRequest_def
      unsupportedMedia_def modelNotReady_def new_FusionBrainError_def Let_def)

text \<open>What each operation throws when the awaited request fails with an error of the HTTP client.\<close>

lemma isReady_failed:
  "isReady S (Inl (AxiosErr e)) v = Inl (if response_status e = Some 401
      then FBErr (unauthorized ''FusionBrain.checkModel'')
      else FBErr (unexpected S ''FusionBrain.checkModel'' e))"
  by (simp add: isReady_def isReady_try_def isReady_catch_def)

lemma generate_failed:
  "generate S (Inl (AxiosErr e)) = Inl (
      if response_status e = Some 400 then FBErr (tooLongPromptsOrBadRequest ''FusionBrain.generate'')
      else if response_status e = Some 401 then FBErr (unauthorized ''FusionBrain.generate'')
      else if response_status e = Some 415 then FBErr (unsupportedMedia ''FusionBrain.generate'')
      else FBErr (unexpected S ''FusionBrain.generate'' e))"
  by (simp add: generate_def generate_try_def generate_catch_def Let_def)

lemma checkTask_failed:
  "checkTask S (Inl (AxiosErr e)) = Inl (
      if response_status e = Some 401 then FBErr (unauthorized ''FusionBrain.checkTask'')
      else if response_status e = Some 404 then FBErr (taskExpired ''FusionBrain.checkTask'')
      else FBErr (unexpected S ''FusionBrain.checkTask'' e))"
  by (simp add: checkTask_def checkTask_try_def checkTask_catch_def Let_def)

lemma getModels_failed:
  "getModels S (Inl (AxiosErr e)) = Inl (if response_status e = Some 401
      then FBErr (unauthorized ''FusionBrain.checkModel'')
      else FBErr (unexpected S ''FusionBrain.checkModel'' e))"
  by (simp add: getModels_def getModels_try_def getModels_catch_def)

lemma getStyles_failed:
  "getStyles S (Inl (AxiosErr e)) = Inl (FBErr (unexpected S ''FusionBrain.checkModel'' e))"
  by (simp add: getStyles_def getStyles_try_def getStyles_catch_def)

section \<open>The lifecycle predicates\<close>

text \<open>
  C1. On every Task snapshot, \<open>isSuccess\<close> holds exactly when the status is the string
  DONE, the censored flag is not true, and the images are present and not empty. Hence a
  successful snapshot is finished and is not censored.
\<close>

theorem isSuccess_iff:
  "(isSuccess t \<longleftrightarrow>
      Task.status t = ''DONE'' \<and> censored t \<noteq> Some True
      \<and> (\<exists>imgs. images t = Some imgs \<and> imgs \<noteq> []))
   \<and> (isSuccess t \<longrightarrow> isFinished t \<and> \<not> isCensored t)"
  by (cases "images t") (auto simp: isSuccess_def isCensored_def isFinished_def DONE_def FAIL_def)

theorem isSuccess_iff_witness:
  "isSuccess example_task \<and> isFinished example_task \<and> \<not> isCensored example_task"
proof -
  have "Task.status example_task = ''DONE'' \<and> censored example_task \<noteq> Some True
        \<and> (\<exists>imgs. images example_task = Some imgs \<and> imgs \<noteq> [])"
    by (simp add: example_task_def)
  with isSuccess_iff [of example_task] show ?thesis by blast
qed

text \<open>
  C2. On every Task snapshot, \<open>isCensored\<close> holds exactly when the status is DONE or
  FAIL and the censored flag is true. With any other status it is false, whatever the flag.
\<close>

theorem isCensored_iff:
  "(isCensored t \<longleftrightarrow>
      (Task.status t = ''DONE'' \<or> Task.status t = ''FAIL'') \<and> censored t = Some True)
   \<and> (Task.status t \<noteq> ''DONE'' \<and> Task.status t \<noteq> ''FAIL'' \<longrightarrow> \<not> isCensored t)"
  by (auto simp: isCensored_def isFinished_def DONE_def FAIL_def)

theorem isCensored_iff_witness:
  "\<not> isCensored (example_task\<lparr>status := ''PROCESSING'', censored := Some True\<rparr>)
   \<and> isCensored (example_task\<lparr>status := ''FAIL'', censored := Some True\<rparr>)"
  using isCensored_iff [of "example_task\<lparr>status := ''PROCESSING'', censored := Some True\<rparr>"]
        isCensored_iff [of "example_task\<lparr>status := ''FAIL'', censored := Some True\<rparr>"]
  by simp

section \<open>Boundary validation\<close>

text \<open>
  C7, as claimed, covers every JSON input in which \<open>uuid\<close> or \<open>status\<close> is missing.
  The body \<open>null\<close> is one, and there the first expression of \<open>Task.create\<close>,
  \<open>"uuid" in jsonObject\<close>, throws the TypeError of the engine: the failure is not the
  TypeError of the library whose message marks both fields as missing.
\<close>

theorem Task_create_null_engine_error:
  "typeof (get_prop JNull ''uuid'') \<noteq> ''string''
   \<and> typeof (get_prop JNull ''status'') \<noteq> ''string''
   \<and> Task_create JNull = Inl (EngineTypeError ''uuid'' JNull)
   \<and> Task_create JNull \<noteq> Inl (TypeError
        (''Task.create: passed object doesn't match required structure:'' @ [CHR 0x0A]
         @ ''uuid (string) - missing'' @ [CHR 0x0A] @ ''status (string) - missing''))"
  by (simp add: Task_create_def)

text \<open>
  C7, amended. Whenever \<open>uuid\<close> is missing or not a string, or \<open>status\<close> is missing or
  not a string, \<open>Task.create\<close> fails. On an object (or array) the failure is the TypeError
  whose message has one line per required field, ending in found for a field that is a
  string and in missing for one that is not. On a primitive (\<open>null\<close>, a boolean, a number,
  a string) the failure is the TypeError that the engine raises for \<open>in\<close>.
\<close>

theorem Task_create_missing_fields:
  assumes "typeof (get_prop j ''uuid'') \<noteq> ''string'' \<or> typeof (get_prop j ''status'') \<noteq> ''string''"
  shows "(\<exists>e. Task_create j = Inl e)
    \<and> (is_object j \<longrightarrow>
         Task_create j = Inl (TypeError
           (''Task.create: passed object doesn't match required structure:'' @ [CHR 0x0A]
            @ ''uuid (string) - ''
            @ (if typeof (get_prop j ''uuid'') = ''string'' then ''found'' else ''missing'')
            @ [CHR 0x0A] @ ''status (string) - ''
            @ (if typeof (get_prop j ''status'') = ''string'' then ''found'' else ''missing''))))
    \<and> (\<not> is_object j \<longrightarrow> Task_create j = Inl (EngineTypeError ''uuid'' j))"
proof (cases "is_object j")
  case True
  from Task_create_fails [OF True assms] True show ?thesis
    by (simp add: Task_create_message_def found_or_missing_def)
next
  case False
  then show ?thesis by (simp add: Task_create_primitive)
qed

theorem Task_create_missing_fields_witness:
  "Task_create status_only_body = Inl (TypeError
     (''Task.create: passed object doesn't match required structure:'' @ [CHR 0x0A]
      @ ''uuid (string) - missing'' @ [CHR 0x0A] @ ''status (string) - found''))
   \<and> Task_create (JStr ''Bad Gateway'') = Inl (EngineTypeError ''uuid'' (JStr ''Bad Gateway''))"
proof -
  have a: "typeof (get_prop status_only_body ''uuid'') \<noteq> ''string''
        \<or> typeof (get_prop status_only_body ''status'') \<noteq> ''string''"
    by (simp add: status_only_body_def)
  have b: "typeof (get_prop (JStr ''Bad Gateway'') ''uuid'') \<noteq> ''string''
        \<or> typeof (get_prop (JStr ''Bad Gateway'') ''status'') \<noteq> ''string''"
    by simp
  from Task_create_missing_fields [OF a]
  have "Task_create status_only_body = Inl (TypeError
     (''Task.create: passed object doesn't match required structure:'' @ [CHR 0x0A]
      @ ''uuid (string) - missing'' @ [CHR 0x0A] @ ''status (string) - found''))"
    by (simp add: status_only_body_def)
  moreover from Task_create_missing_fields [OF b]
  have "Task_create (JStr ''Bad Gateway'') = Inl (EngineTypeError ''uuid'' (JStr ''Bad Gateway''))"
    by simp
  ultimately show ?thesis by simp
qed

text \<open>
  C8, as claimed, asks for a non-empty id and status. \<open>Task.create\<close> tests the type of
  the two properties only: an input whose \<open>uuid\<close> and \<open>status\<close> are empty strings is
  accepted, and the Task has an empty id and an empty status.
\<close>

theorem Task_create_empty_id_and_status:
  "Task_create empty_strings_body
     = Inr \<lparr>uuid = '''', status = '''', images = None, errorDescription = None,
            censored = None, generationTime = None\<rparr>"
  by (simp add: empty_strings_body_def Task_create_def Task_images_def Task_errorDescription_def
      Task_censored_def Task_generationTime_def)

text \<open>
  C8, amended. Every Task that \<open>Task.create\<close> returns has as id and status the strings
  (empty ones included) that the input holds under \<open>uuid\<close> and \<open>status\<close>, and its
  images, when present, are not empty.
\<close>

theorem Task_create_invariant:
  assumes "Task_create j = Inr t"
  shows "get_prop j ''uuid'' = Some (JStr (uuid t))
    \<and> get_prop j ''status'' = Some (JStr (Task.status t))
    \<and> (\<forall>imgs. images t = Some imgs \<longrightarrow> imgs \<noteq> [])"
  using Task_create_Inr_fields [OF assms] by (auto simp: Task_images_Some)

theorem Task_create_invariant_witness:
  "Task_create mixed_images_body
     = Inr \<lparr>uuid = ''7a1c'', status = ''DONE'', images = Some [JStr ''aGVsbG8='', JNum 5, JNull],
            errorDescription = None, censored = None, generationTime = None\<rparr>
   \<and> get_prop mixed_images_body ''uuid'' = Some (JStr ''7a1c'')
   \<and> get_prop mixed_images_body ''status'' = Some (JStr ''DONE'')"
proof -
  have c: "Task_create mixed_images_body
     = Inr \<lparr>uuid = ''7a1c'', status = ''DONE'', images = Some [JStr ''aGVsbG8='', JNum 5, JNull],
            errorDescription = None, censored = None, generationTime = None\<rparr>"
    by (simp add: mixed_images_body_def Task_create_def Task_images_def Task_errorDescription_def
      Task_censored_def Task_generationTime_def)
  from Task_create_invariant [OF c] c show ?thesis by simp
qed

text \<open>
  C10. Let the input have a string \<open>uuid\<close> and a string \<open>status\<close>, so that
  \<open>Task.create\<close> returns a Task. If \<open>images\<close> is an array whose first element is a
  string, the Task holds that array as it is, whatever its later elements are. In every
  other case (no \<open>images\<close>, not an array, an empty array, a first element that is not a
  string) the Task has no images, and the call does not fail.
\<close>

theorem Task_create_images_first_element:
  assumes "get_prop j ''uuid'' = Some (JStr u)" and "get_prop j ''status'' = Some (JStr s)"
  shows "\<exists>t. Task_create j = Inr t
    \<and> (\<forall>x rest. get_prop j ''images'' = Some (JArr (JStr x # rest))
          \<longrightarrow> images t = Some (JStr x # rest))
    \<and> ((\<nexists>x rest. get_prop j ''images'' = Some (JArr (JStr x # rest))) \<longrightarrow> images t = None)"
proof -
  let ?t = "\<lparr>uuid = u, status = s, images = Task_images j,
           errorDescription = Task_errorDescription j, censored = Task_censored j,
           generationTime = Task_generationTime j\<rparr>"
  have c: "Task_create j = Inr ?t" by (rule Task_create_succeeds [OF assms])
  have "\<forall>x rest. get_prop j ''images'' = Some (JArr (JStr x # rest))
          \<longrightarrow> images ?t = Some (JStr x # rest)"
    by (simp add: Task_images_Some)
  moreover have "(\<nexists>x rest. get_prop j ''images'' = Some (JArr (JStr x # rest))) \<longrightarrow> images ?t = None"
  proof
    assume n: "\<nexists>x rest. get_prop j ''images'' = Some (JArr (JStr x # rest))"
    show "images ?t = None"
    proof (cases "Task_images j")
      case None
      then show ?thesis by simp
    next
      case (Some xs)
      with n show ?thesis by (auto simp: Task_images_Some)
    qed
  qed
  ultimately show ?thesis using c by blast
qed

theorem Task_create_images_first_element_witness:
  "(\<exists>t. Task_create mixed_images_body = Inr t
        \<and> images t = Some [JStr ''aGVsbG8='', JNum 5, JNull])
   \<and> (\<exists>t. Task_create bad_images_body = Inr t \<and> images t = None)"
proof -
  have a: "get_prop mixed_images_body ''uuid'' = Some (JStr ''7a1c'')"
    and b: "get_prop mixed_images_body ''status'' = Some (JStr ''DONE'')"
    and i: "get_prop mixed_images_body ''images'' = Some (JArr (JStr ''aGVsbG8='' # [JNum 5, JNull]))"
    by (simp_all add: mixed_images_body_def)
  have a': "get_prop bad_images_body ''uuid'' = Some (JStr ''7a1c'')"
    and b': "get_prop bad_images_body ''status'' = Some (JStr ''DONE'')"
    and i': "\<nexists>x rest. get_prop bad_images_body ''images'' = Some (JArr (JStr x # rest))"
    by (simp_all add: bad_images_body_def)
  from Task_create_images_first_element [OF a b] i
  have "\<exists>t. Task_create mixed_images_body = Inr t
        \<and> images t = Some [JStr ''aGVsbG8='', JNum 5, JNull]"
    by blast
  moreover from Task_create_images_first_element [OF a' b'] i'
  have "\<exists>t. Task_create bad_images_body = Inr t \<and> images t = None"
    by blast
  ultimately show ?thesis by blast
qed

text \<open>
  C6 says that a validated ModelInfo takes its version from the input's \<open>version\<close>
  property. \<open>ModelInfo.create\<close> tests \<open>version\<close> but hands \<open>jsonObject.number\<close> to
  the constructor: on a well-formed entry with version 3.1 and no \<open>number\<close> property the
  result has an undefined version.
\<close>

theorem ModelInfo_create_version_undefined:
  "ModelInfo_create model_entry
     = Inr \<lparr>id_m = 4, name = ''Kandinsky'', version = None, type_m = ''TEXT2IMAGE''\<rparr>
   \<and> get_prop model_entry ''version'' = Some (JNum 3.1)"
  by (simp add: model_entry_def ModelInfo_create_def)

section \<open>Submission\<close>

text \<open>
  C3. When the exchange of \<open>generate\<close> resolves with body \<open>b\<close>: if \<open>b\<close> validates as
  a Task, the result is the accepted variant with that task, whose id is the string under
  \<open>uuid\<close> in \<open>b\<close>; if validation throws, the result is the not-accepted variant with
  the serialized body as its reason, returned and not thrown. A body without a string
  \<open>uuid\<close> or without a string \<open>status\<close> is such a case.
\<close>

theorem generate_resolved:
  "(\<forall>t. Task_create b = Inr t \<longrightarrow>
        generate S (Inr b) = Inr (Accepted t) \<and> get_prop b ''uuid'' = Some (JStr (uuid t)))
   \<and> (\<forall>e. Task_create b = Inl e \<longrightarrow> generate S (Inr b) = Inr (NotAccepted (S b)))
   \<and> (typeof (get_prop b ''uuid'') \<noteq> ''string'' \<or> typeof (get_prop b ''status'') \<noteq> ''string''
        \<longrightarrow> generate S (Inr b) = Inr (NotAccepted (S b)))"
proof (intro conjI allI impI)
  fix t assume "Task_create b = Inr t"
  then show "generate S (Inr b) = Inr (Accepted t)"
    by (simp add: generate_def generate_try_def)
next
  fix t assume "Task_create b = Inr t"
  then show "get_prop b ''uuid'' = Some (JStr (uuid t))"
    by (simp add: Task_create_Inr_fields)
next
  fix e assume "Task_create b = Inl e"
  then show "generate S (Inr b) = Inr (NotAccepted (S b))"
    by (simp add: generate_def generate_try_def)
next
  assume missing: "typeof (get_prop b ''uuid'') \<noteq> ''string'' \<or> typeof (get_prop b ''status'') \<noteq> ''string''"
  have "\<exists>e. Task_create b = Inl e"
  proof (cases "is_object b")
    case True
    with missing show ?thesis by (simp add: Task_create_fails)
  next
    case False
    then show ?thesis by (simp add: Task_create_primitive)
  qed
  then show "generate S (Inr b) = Inr (NotAccepted (S b))"
    by (auto simp: generate_def generate_try_def)
qed

theorem generate_resolved_witness:
  "generate fixed_text (Inr accepted_body)
     = Inr (Accepted \<lparr>uuid = ''7a1c'', status = ''INITIAL'', images = None,
              errorDescription = None, censored = None, generationTime = None\<rparr>)
   \<and> get_prop accepted_body ''uuid'' = Some (JStr ''7a1c'')
   \<and> generate fixed_text (Inr rejected_body)
     = Inr (NotAccepted ''{\"model_status\":\"DISABLED_BY_QUEUE\"}'')"
proof -
  have ok: "Task_create accepted_body
     = Inr \<lparr>uuid = ''7a1c'', status = ''INITIAL'', images = None,
              errorDescription = None, censored = None, generationTime = None\<rparr>"
    by (simp add: accepted_body_def Task_create_def Task_images_def Task_errorDescription_def
        Task_censored_def Task_generationTime_def)
  have no: "typeof (get_prop rejected_body ''uuid'') \<noteq> ''string''
            \<or> typeof (get_prop rejected_body ''status'') \<noteq> ''string''"
    by (simp add: rejected_body_def)
  from generate_resolved [of accepted_body fixed_text] ok
  have "generate fixed_text (Inr accepted_body)
     = Inr (Accepted \<lparr>uuid = ''7a1c'', status = ''INITIAL'', images = None,
              errorDescription = None, censored = None, generationTime = None\<rparr>)"
    by blast
  moreover have "get_prop accepted_body ''uuid'' = Some (JStr ''7a1c'')"
    by (simp add: accepted_body_def)
  moreover from generate_resolved [of rejected_body fixed_text] no
  have "generate fixed_text (Inr rejected_body) = Inr (NotAccepted (fixed_text rejected_body))"
    by blast
  ultimately show ?thesis by (simp add: fixed_text_def)
qed

section \<open>Readiness\<close>

text \<open>
  C9. When the exchange of \<open>isReady\<close> resolves: the payloads \<open>{status: "ACTIVE"}\<close> and
  \<open>{model_status: "ACTIVE"}\<close>, and any object with one of these two entries, give true. An
  object in which neither \<open>status\<close> nor \<open>model_status\<close> is the string ACTIVE gives false,
  returned and not thrown, unless the second argument is true; then the call fails with
  kind MODEL_NOT_READY and a body that is the serialized payload.
\<close>

theorem isReady_resolved:
  "isReady S (Inr (JObj [(''status'', JStr ''ACTIVE'')])) v = Inr True
   \<and> isReady S (Inr (JObj [(''model_status'', JStr ''ACTIVE'')])) v = Inr True
   \<and> (is_object d \<and> (get_prop d ''status'' = Some (JStr ''ACTIVE'')
                       \<or> get_prop d ''model_status'' = Some (JStr ''ACTIVE''))
        \<longrightarrow> isReady S (Inr d) v = Inr True)
   \<and> (is_object d \<and> get_prop d ''status'' \<noteq> Some (JStr ''ACTIVE'')
         \<and> get_prop d ''model_status'' \<noteq> Some (JStr ''ACTIVE'')
        \<longrightarrow> (v \<noteq> Some True \<longrightarrow> isReady S (Inr d) v = Inr False)
          \<and> (v = Some True \<longrightarrow>
               (\<exists>e. isReady S (Inr d) v = Inl (FBErr e)
                    \<and> code e = MODEL_NOT_READY \<and> body e = Some (S d))))"
  by (auto simp: isReady_def isReady_try_def isReady_catch_def Let_def js_in_get_prop
      modelNotReady_def new_FusionBrainError_def)

theorem isReady_resolved_witness:
  "isReady fixed_text (Inr rejected_body) None = Inr False
   \<and> isReady fixed_text (Inr rejected_body) (Some False) = Inr False
   \<and> (\<exists>e. isReady fixed_text (Inr rejected_body) (Some True) = Inl (FBErr e)
          \<and> code e = MODEL_NOT_READY
          \<and> body e = Some ''{\"model_status\":\"DISABLED_BY_QUEUE\"}'')"
proof -
  have h: "is_object rejected_body \<and> get_prop rejected_body ''status'' \<noteq> Some (JStr ''ACTIVE'')
         \<and> get_prop rejected_body ''model_status'' \<noteq> Some (JStr ''ACTIVE'')"
    by (simp add: rejected_body_def)
  from h isReady_resolved [of fixed_text None rejected_body]
  have "isReady fixed_text (Inr rejected_body) None = Inr False" by simp
  moreover from h isReady_resolved [of fixed_text "Some False" rejected_body]
  have "isReady fixed_text (Inr rejected_body) (Some False) = Inr False" by simp
  moreover from h isReady_resolved [of fixed_text "Some True" rejected_body]
  have "\<exists>e. isReady fixed_text (Inr rejected_body) (Some True) = Inl (FBErr e)
          \<and> code e = MODEL_NOT_READY \<and> body e = Some (fixed_text rejected_body)"
    by simp
  ultimately show ?thesis by (simp add: fixed_text_def)
qed

section \<open>Classification of failed exchanges\<close>

text \<open>
  C4. When the awaited request fails with an error \<open>e\<close> of the HTTP client, each operation
  throws a classified error whose kind depends on the status of the response that came
  with \<open>e\<close> (none for a transport failure): 404 on \<open>checkTask\<close> is EXPIRED; 401 on
  \<open>isReady\<close>, \<open>generate\<close>, \<open>checkTask\<close> and \<open>getModels\<close> is UNAUTHORIZED; 400 on
  \<open>generate\<close> is LONG_PROMPT_OR_BAD_REQUEST; 415 on \<open>generate\<close> is UNSUPPORTED_MEDIA;
  everything else, and every failure of \<open>getStyles\<close>, is UNEXPECTED.
\<close>

theorem error_classification:
  "(response_status e = Some 404 \<longrightarrow> error_kind (checkTask S (Inl (AxiosErr e))) = Some EXPIRED)
   \<and> (response_status e = Some 401 \<longrightarrow>
         error_kind (isReady S (Inl (AxiosErr e)) v) = Some UNAUTHORIZED
       \<and> error_kind (generate S (Inl (AxiosErr e))) = Some UNAUTHORIZED
       \<and> error_kind (checkTask S (Inl (AxiosErr e))) = Some UNAUTHORIZED
       \<and> error_kind (getModels S (Inl (AxiosErr e))) = Some UNAUTHORIZED)
   \<and> (response_status e = Some 400 \<longrightarrow>
         error_kind (generate S (Inl (AxiosErr e))) = Some LONG_PROMPT_OR_BAD_REQUEST)
   \<and> (response_status e = Some 415 \<longrightarrow>
         error_kind (generate S (Inl (AxiosErr e))) = Some UNSUPPORTED_MEDIA)
   \<and> (response_status e \<noteq> Some 401 \<longrightarrow>
         error_kind (isReady S (Inl (AxiosErr e)) v) = Some UNEXPECTED
       \<and> error_kind (getModels S (Inl (AxiosErr e))) = Some UNEXPECTED)
   \<and> (response_status e \<notin> {Some 400, Some 401, Some 415} \<longrightarrow>
         error_kind (generate S (Inl (AxiosErr e))) = Some UNEXPECTED)
   \<and> (response_status e \<notin> {Some 401, Some 404} \<longrightarrow>
         error_kind (checkTask S (Inl (AxiosErr e))) = Some UNEXPECTED)
   \<and> error_kind (getStyles S (Inl (AxiosErr e))) = Some UNEXPECTED"
  by (simp add: isReady_failed generate_failed checkTask_failed getModels_failed getStyles_failed)

theorem error_classification_witness:
  "error_kind (checkTask fixed_text (Inl (AxiosErr expired_failure))) = Some EXPIRED
   \<and> error_kind (generate fixed_text (Inl (AxiosErr expired_failure))) = Some UNEXPECTED
   \<and> error_kind (isReady fixed_text (Inl (AxiosErr unauthorized_failure)) None) = Some UNAUTHORIZED
   \<and> error_kind (getModels fixed_text (Inl (AxiosErr network_failure))) = Some UNEXPECTED"
proof -
  have a: "response_status expired_failure = Some 404"
    by (simp add: response_status_def expired_failure_def)
  have b: "response_status unauthorized_failure = Some 401"
    by (simp add: response_status_def unauthorized_failure_def)
  have c: "response_status network_failure = None"
    by (simp add: response_status_def network_failure_def)
  from a error_classification [of expired_failure fixed_text None]
  have "error_kind (checkTask fixed_text (Inl (AxiosErr expired_failure))) = Some EXPIRED"
    and "error_kind (generate fixed_text (Inl (AxiosErr expired_failure))) = Some UNEXPECTED"
    by simp_all
  moreover from b error_classification [of unauthorized_failure fixed_text None]
  have "error_kind (isReady fixed_text (Inl (AxiosErr unauthorized_failure)) None) = Some UNAUTHORIZED"
    by simp
  moreover from c error_classification [of network_failure fixed_text None]
  have "error_kind (getModels fixed_text (Inl (AxiosErr network_failure))) = Some UNEXPECTED"
    by simp
  ultimately show ?thesis by simp
qed

text \<open>
  C5 says that a classified error names the operation that raised it, those of
  \<open>getModels\<close> and \<open>getStyles\<close> in particular. Both operations hand the name
  FusionBrain.checkModel to the error factories: a 401 on \<open>getModels\<close> and a transport
  failure on \<open>getStyles\<close> give errors whose messages begin with that name. (The message
  of the second carries the transport error's message, and its stack the reference to
  the cause.)
\<close>

theorem list_operations_name_checkModel:
  "getModels fixed_text (Inl (AxiosErr unauthorized_failure))
     = Inl (FBErr \<lparr>FusionBrainError.message =
         ''FusionBrain.checkModel: Request failed with Unauthorized error. Ensure you've provided correct api and secret keys.'',
         code = UNAUTHORIZED, body = None, stack = ''''\<rparr>)
   \<and> getStyles fixed_text (Inl (AxiosErr network_failure))
     = Inl (FBErr \<lparr>FusionBrainError.message =
         ''FusionBrain.checkModel: Network Error:'' @ [CHR 0x0A] @ ''undefined'',
         code = UNEXPECTED, body = None, stack = ''Caused by: undefined''\<rparr>)"
  by (simp add: getModels_failed getStyles_failed response_status_def unauthorized_failure_def
      network_failure_def unauthorized_def unexpected_def new_FusionBrainError_def Let_def)

end
